theory Spec2Isabelle
  imports Complex_Main "HOL-Library.Sublist"
begin

section \<open>Least-squares fit (lsm\_project/lsm/functions.py)\<close>

text \<open>
  The module computes an ordinary least-squares line through paired samples, the two
  error-bound lines and a textual report. The embedding follows functions.py function by
  function and keeps its names (a leading underscore is dropped, since an Isabelle name
  cannot start with one).

  Python's \<^verbatim>\<open>float\<close> is an IEEE double. The fit is embedded over the mathematical reals:
  its sums, products and quotients are exact, so rounding, overflow, NaN and the
  infinities are not in that part of the model, and the theorems about the fit are those
  that do not depend on them: which exception the validation and the mismatch resolution
  raise and what they return, what the line generator does with its arguments, and the
  fit of three points on a line, used as a concrete input. What Python raises is kept:
  \<^verbatim>\<open>/\<close> raises ZeroDivisionError on a zero divisor, \<^verbatim>\<open>math.sqrt\<close> raises ValueError on
  a negative argument, indexing past the end raises IndexError. The report does no
  arithmetic; it prints float values, and there the fields are IEEE values, negative zero,
  NaN and the infinities included.
\<close>

subsection \<open>Values and exceptions\<close>

text \<open>
  A list element is either an instance of \<^verbatim>\<open>numbers.Real\<close> or some other object; an
  argument is either something \<^verbatim>\<open>list(...)\<close> accepts or not.
\<close>

datatype py_value = PyReal (the_real: real) | PyNonReal

datatype py_arg = PyIterable "py_value list" | PyNotIterable

text \<open>An argument of the annotated type \<^verbatim>\<open>list[float]\<close>.\<close>

definition float_list :: "real list \<Rightarrow> py_arg" where
  "float_list xs = PyIterable (map PyReal xs)"

text \<open>
  Exceptions raised by a \<^verbatim>\<open>raise\<close> statement, and the ValueError of \<^verbatim>\<open>math.sqrt\<close>, carry
  their class and message; the others, raised by Python's own operations, are bare.
\<close>

datatype error =
    TypeError string
  | ValueError string
  | RuntimeError string
  | ZeroDivisionError
  | IndexError
  | OSError

subsection \<open>enumerations.py and models.py\<close>

text \<open>
  Modelled from the spec: enumerations.py is not among the sources. functions.py uses the
  two members \<^verbatim>\<open>MismatchStrategies.FALL\<close> (the default; the spec's FAIL) and
  \<^verbatim>\<open>MismatchStrategies.CUT\<close> (the spec's TRUNCATE); the spec calls it a closed enumeration
  of these two.
\<close>

datatype MismatchStrategies = FALL | CUT

text \<open>
  The parameter \<^verbatim>\<open>mismatch_strategy\<close> is not checked on entry, so a caller may pass any
  object; \<open>NotAStrategy\<close> stands for every value that is not a member of the enumeration.
\<close>

datatype py_strategy = Strategy MismatchStrategies | NotAStrategy

text \<open>
  Modelled from the spec: models.py is not among the sources. The three value objects are
  plain records of the fields functions.py passes to their constructors; constructing one
  performs no check. The fields \<^verbatim>\<open>abscissa\<close> and \<^verbatim>\<open>ordinates\<close> of LSMLines are written
  \<open>lines_abscissa\<close> and \<open>lines_ordinates\<close>, the plain names being those of the parameters.
  LSMDescription is parametric in the type of its four numbers: reals where the fit computes
  them, float values where the report prints them.
\<close>

record LSMStatistics =
  abscissa_mean :: real
  ordinate_mean :: real
  product_mean :: real
  abs_squared_mean :: real

record 'n LSMDescription =
  incline :: 'n
  shift :: 'n
  incline_error :: 'n
  shift_error :: 'n

record LSMLines =
  lines_abscissa :: "real list"
  lines_ordinates :: "real list"
  line_predicted :: "real list"
  line_above :: "real list"
  line_under :: "real list"

subsection \<open>Validation and mismatch resolution\<close>

text \<open>\<^verbatim>\<open>all(isinstance(el, Real) for el in measurments)\<close>\<close>

fun is_Real :: "py_value \<Rightarrow> bool" where
  "is_Real (PyReal r) = True"
| "is_Real PyNonReal = False"

definition is_valid_measurments :: "py_value list \<Rightarrow> bool" where
  "is_valid_measurments measurments = list_all is_Real measurments"

text \<open>
  \<^verbatim>\<open>_process_mismatch\<close>: the length floor first, then, only when the lengths differ, the
  \<^verbatim>\<open>match\<close> on the strategy. The function only measures and slices its arguments, so
  the element type is left open.
\<close>

definition process_mismatch ::
  "'a list \<Rightarrow> 'a list \<Rightarrow> py_strategy \<Rightarrow> error + ('a list \<times> 'a list)" where
  \<open>process_mismatch abscissa ordinates mismatch_strategy =
     (if length abscissa < 3 \<or> length ordinates < 3
      then Inl (ValueError ''Arguments lenghts must be more than 2'')
      else if length abscissa \<noteq> length ordinates
      then (case mismatch_strategy of
              Strategy FALL \<Rightarrow> Inl (RuntimeError ''Lenghts of the arguments are not equal'')
            | Strategy CUT \<Rightarrow>
                (let min_lenght = min (length abscissa) (length ordinates)
                 in Inr (take min_lenght abscissa, take min_lenght ordinates))
            | NotAStrategy \<Rightarrow> Inl (ValueError ''Unknown data in argument "mismatch_data"''))
      else Inr (abscissa, ordinates))\<close>

subsection \<open>Summary statistics\<close>

text \<open>
  \<^verbatim>\<open>_get_lsm_statistics\<close>. The four means divide by \<^verbatim>\<open>len(abscissa)\<close>, which raises on an
  empty list, and the product sum reads \<^verbatim>\<open>ordinates[i]\<close> for every index of abscissa,
  which raises when ordinates is the shorter list.
\<close>

definition get_lsm_statistics :: "real list \<Rightarrow> real list \<Rightarrow> error + LSMStatistics" where
  "get_lsm_statistics abscissa ordinates =
     (let data_lenght = length abscissa in
      if data_lenght = 0 then Inl ZeroDivisionError
      else if length ordinates < data_lenght then Inl IndexError
      else Inr \<lparr>
        abscissa_mean = sum_list abscissa / real data_lenght,
        ordinate_mean = sum_list ordinates / real data_lenght,
        product_mean =
          sum_list (map (\<lambda>i. abscissa ! i * ordinates ! i) [0..<data_lenght]) / real data_lenght,
        abs_squared_mean =
          sum_list (map (\<lambda>i. (abscissa ! i)\<^sup>2) [0..<data_lenght]) / real data_lenght \<rparr>)"

subsection \<open>The fit\<close>

text \<open>
  \<^verbatim>\<open>get_lsm_description\<close>. After the two validation steps every element is a real, and
  the lists are carried on as lists of reals. \<open>lsm_coefficients\<close> is the numeric part of the
  function (from \<^verbatim>\<open>data_lenght = len(abscissa)\<close> to the \<^verbatim>\<open>return\<close>), with the divisions
  and square roots guarded in the order in which Python evaluates them; its local variables
  carry a prime where the plain name is a field of LSMDescription.
\<close>

definition to_list :: "py_arg \<Rightarrow> py_value list option" where
  "to_list a = (case a of PyIterable xs \<Rightarrow> Some xs | PyNotIterable \<Rightarrow> None)"

definition py_sqrt :: "real \<Rightarrow> error + real" where
  "py_sqrt x = (if x < 0 then Inl (ValueError ''math domain error'') else Inr (sqrt x))"

definition lsm_coefficients ::
  "real list \<Rightarrow> real list \<Rightarrow> error + real LSMDescription" where
  "lsm_coefficients abscissa ordinates =
     (let data_lenght = length abscissa in
      case get_lsm_statistics abscissa ordinates of
        Inl e \<Rightarrow> Inl e
      | Inr stats \<Rightarrow>
          let denominator = abs_squared_mean stats - (abscissa_mean stats)\<^sup>2 in
          if denominator = 0 then Inl ZeroDivisionError
          else
            let incline' =
                  (product_mean stats - abscissa_mean stats * ordinate_mean stats) / denominator;
                shift' = ordinate_mean stats - incline' * abscissa_mean stats
            in
            if int data_lenght - 2 = 0 then Inl ZeroDivisionError
            else
              let ordinates_error =
                    1 / real_of_int (int data_lenght - 2) *
                    sum_list (map (\<lambda>i. (ordinates ! i - incline' * abscissa ! i - shift')\<^sup>2)
                                  [0..<data_lenght])
              in
              case py_sqrt (ordinates_error / real data_lenght / denominator) of
                Inl e \<Rightarrow> Inl e
              | Inr incline_error' \<Rightarrow>
                  (case py_sqrt (ordinates_error * abs_squared_mean stats / real data_lenght /
                                 denominator) of
                     Inl e \<Rightarrow> Inl e
                   | Inr shift_error' \<Rightarrow>
                       Inr \<lparr> incline = incline', shift = shift',
                             incline_error = incline_error', shift_error = shift_error' \<rparr>))"

definition get_lsm_description ::
  "py_arg \<Rightarrow> py_arg \<Rightarrow> py_strategy \<Rightarrow> error + real LSMDescription" where
  "get_lsm_description abscissa ordinates mismatch_strategy =
     (case (to_list abscissa, to_list ordinates) of
        (Some abscissa1, Some ordinates1) \<Rightarrow>
          if \<not> is_valid_measurments abscissa1 \<or> \<not> is_valid_measurments ordinates1
          then Inl (ValueError ''Some values are not real'')
          else
            (case process_mismatch (map the_real abscissa1) (map the_real ordinates1)
                    mismatch_strategy of
               Inl e \<Rightarrow> Inl e
             | Inr (abscissa2, ordinates2) \<Rightarrow> lsm_coefficients abscissa2 ordinates2)
      | _ \<Rightarrow> Inl (TypeError ''An arguments must be a lists''))"

subsection \<open>The three lines\<close>

text \<open>
  \<^verbatim>\<open>get_lsm_lines\<close>. The third argument is \<^verbatim>\<open>None\<close>, an LSMDescription or any other
  object. The two sequences are taken at their annotated type \<^verbatim>\<open>list[float]\<close>: the
  function itself checks nothing about them, multiplies the elements of abscissa by the
  coefficients and hands ordinates on as it is. With \<^verbatim>\<open>None\<close> the variable
  \<^verbatim>\<open>lsm_description\<close> is first replaced by the result of \<^verbatim>\<open>get_lsm_description\<close>, called
  with its default strategy; the \<^verbatim>\<open>isinstance\<close> test and the comprehensions then run on
  whatever the variable holds.
\<close>

datatype py_description = PyNone | PyDescription "real LSMDescription" | PyNotDescription

definition get_lsm_lines ::
  "real list \<Rightarrow> real list \<Rightarrow> py_description \<Rightarrow> error + LSMLines" where
  "get_lsm_lines abscissa ordinates lsm_description =
     (case (case lsm_description of
              PyNone \<Rightarrow>
                (case get_lsm_description (float_list abscissa) (float_list ordinates)
                        (Strategy FALL) of
                   Inl e \<Rightarrow> Inl e
                 | Inr d \<Rightarrow> Inr (PyDescription d))
            | _ \<Rightarrow> Inr lsm_description) of
        Inl e \<Rightarrow> Inl e
      | Inr (PyDescription d) \<Rightarrow>
          Inr \<lparr>
            lines_abscissa = abscissa,
            lines_ordinates = ordinates,
            line_predicted = map (\<lambda>x. incline d * x + shift d) abscissa,
            line_above =
              map (\<lambda>x. (incline d + incline_error d) * x + shift d + shift_error d) abscissa,
            line_under =
              map (\<lambda>x. (incline d - incline_error d) * x + shift d - shift_error d) abscissa \<rparr>
      | Inr _ \<Rightarrow> Inl (TypeError ''Incorrect data in lms_description''))"

subsection \<open>The report\<close>

text \<open>
  A float value as the report meets it: a finite number, given by the real it is exactly
  (positive zero is \<open>Finite 0\<close>), negative zero, an infinity or NaN.
\<close>

datatype py_float = Finite real | NegZero | PosInf | NegInf | NaN

fun is_finite :: "py_float \<Rightarrow> bool" where
  "is_finite (Finite x) = True"
| "is_finite NegZero = True"
| "is_finite PosInf = False"
| "is_finite NegInf = False"
| "is_finite NaN = False"

text \<open>
  Python's string operations used by \<^verbatim>\<open>get_report\<close>: \<^verbatim>\<open>str.center\<close> (CPython puts the
  extra fill character on the left when both the margin and the width are odd),
  \<^verbatim>\<open>str.join\<close>, and the format specification \<^verbatim>\<open>.Nf\<close>. On a finite float it prints the
  exact value rounded to N decimals, a tie going to the even neighbour, as sign, integer
  part, point and exactly N digits; the sign is that of the float, so a negative value that
  rounds to zero, and negative zero itself, print as \<^verbatim>\<open>-0.000\<close>. NaN prints as \<^verbatim>\<open>nan\<close> and
  the infinities as \<^verbatim>\<open>inf\<close> and \<^verbatim>\<open>-inf\<close>, whatever N is.
\<close>

definition center :: "string \<Rightarrow> nat \<Rightarrow> char \<Rightarrow> string" where
  "center s width fillchar =
     (if width \<le> length s then s
      else
        let marg = width - length s;
            left = marg div 2 + (if odd marg \<and> odd width then 1 else 0)
        in replicate left fillchar @ s @ replicate (marg - left) fillchar)"

fun join :: "string \<Rightarrow> string list \<Rightarrow> string" where
  "join sep [] = []"
| "join sep [x] = x"
| "join sep (x # y # ys) = x @ sep @ join sep (y # ys)"

definition digit_char :: "nat \<Rightarrow> char" where
  "digit_char n = ''0123456789'' ! (n mod 10)"

fun str_nat :: "nat \<Rightarrow> string" where
  "str_nat n = (if n < 10 then [digit_char n] else str_nat (n div 10) @ [digit_char n])"

declare str_nat.simps [simp del]

fun frac_digits :: "nat \<Rightarrow> nat \<Rightarrow> string" where
  "frac_digits 0 m = []"
| "frac_digits (Suc p) m = frac_digits p (m div 10) @ [digit_char m]"

definition round_half_even :: "real \<Rightarrow> nat" where
  "round_half_even y =
     (let f = nat \<lfloor>y\<rfloor>; d = y - real f in
      if d < 1 / 2 then f
      else if 1 / 2 < d then f + 1
      else if even f then f else f + 1)"

definition format_f :: "nat \<Rightarrow> real \<Rightarrow> string" where
  "format_f p x =
     (let scaled = round_half_even (\<bar>x\<bar> * 10 ^ p) in
      (if x < 0 then ''-'' else []) @ str_nat (scaled div 10 ^ p) @
      (if p = 0 then [] else ''.'' @ frac_digits p (scaled mod 10 ^ p)))"

fun format_float :: "nat \<Rightarrow> py_float \<Rightarrow> string" where
  "format_float p (Finite x) = format_f p x"
| "format_float p NegZero = ''-'' @ format_f p 0"
| "format_float p PosInf = ''inf''"
| "format_float p NegInf = ''-inf''"
| "format_float p NaN = ''nan''"

definition PRECISION :: nat where
  "PRECISION = 3"

text \<open>
  The file system is the part of the world \<^verbatim>\<open>get_report\<close> can change: the content of
  each path, and whether \<^verbatim>\<open>open(path, 'w')\<close> succeeds there. The report is built before
  the file is touched; an empty path, like \<^verbatim>\<open>None\<close>, is falsy and nothing is written.
\<close>

record filesystem =
  contents :: "string \<Rightarrow> string option"
  writable :: "string \<Rightarrow> bool"

definition report_lines :: "py_float LSMDescription \<Rightarrow> string list" where
  "report_lines lsm_description =
     [center ''LSM computing result'' 100 CHR ''='', [],
      ''[INFO]: incline: '' @ format_float PRECISION (incline lsm_description) @ '';'',
      ''[INFO]: shift: '' @ format_float PRECISION (shift lsm_description) @ '';'',
      ''[INFO]: incline error: '' @
        format_float PRECISION (incline_error lsm_description) @ '';'',
      ''[INFO]: shift error: '' @ format_float PRECISION (shift_error lsm_description) @ '';'',
      [], center [] 100 CHR ''='']"

definition get_report ::
  "py_float LSMDescription \<Rightarrow> string option \<Rightarrow> filesystem \<Rightarrow>
   error + (string \<times> filesystem)" where
  "get_report lsm_description path_to_save fs =
     (let report = join [CHR 0x0A] (report_lines lsm_description) in
      case path_to_save of
        None \<Rightarrow> Inr (report, fs)
      | Some path \<Rightarrow>
          if path = [] then Inr (report, fs)
          else if writable fs path
          then Inr (report, fs\<lparr>contents := (contents fs)(path \<mapsto> report)\<rparr>)
          else Inl OSError)"

text \<open>
  A number printed with three decimals: the fourth character from the end is the point,
  the last three are digits, and no point comes earlier.
\<close>

definition is_digit :: "char \<Rightarrow> bool" where
  "is_digit c = (c \<in> set ''0123456789'')"

definition three_decimals :: "string \<Rightarrow> bool" where
  "three_decimals s =
     (5 \<le> length s \<and> s ! (length s - 4) = CHR ''.'' \<and>
      list_all is_digit (drop (length s - 3) s) \<and>
      CHR ''.'' \<notin> set (take (length s - 4) s))"

subsection \<open>Auxiliary facts\<close>

lemma valid_float_values: "is_valid_measurments (map PyReal xs)"
  by (simp add: is_valid_measurments_def list_all_iff)

lemma the_real_float_values: "map the_real (map PyReal xs) = xs"
  by (simp add: comp_def)

lemma get_lsm_description_float_list:
  "get_lsm_description (float_list xs) (float_list ys) s =
     (case process_mismatch xs ys s of
        Inl e \<Rightarrow> Inl e
      | Inr (xs', ys') \<Rightarrow> lsm_coefficients xs' ys')"
  unfolding get_lsm_description_def float_list_def to_list_def
  by (simp only: py_arg.case prod.case option.case valid_float_values the_real_float_values
      simp_thms if_False)

lemma process_mismatch_equal:
  "length xs = length ys \<Longrightarrow> 3 \<le> length xs \<Longrightarrow> process_mismatch xs ys s = Inr (xs, ys)"
  by (simp add: process_mismatch_def)

text \<open>The fit of three points on the line \<open>y = 2x\<close>.\<close>

lemma fit_collinear:
  "get_lsm_description (float_list [1, 2, 3]) (float_list [2, 4, 6]) s =
     Inr \<lparr> incline = 2, shift = 0, incline_error = 0, shift_error = 0 \<rparr>"
proof -
  have "lsm_coefficients [1, 2, 3] [2, 4, 6] =
     Inr \<lparr> incline = 2, shift = 0, incline_error = 0, shift_error = 0 \<rparr>"
    by (simp add: lsm_coefficients_def get_lsm_statistics_def py_sqrt_def Let_def upt_rec
        power2_eq_square)
  then show ?thesis
    by (simp add: get_lsm_description_float_list process_mismatch_equal)
qed

subsection \<open>Claims about mismatch resolution\<close>

text \<open>
  C3. For two sequences of at least 3 elements each, \<open>process_mismatch\<close> under CUT (the
  specification's TRUNCATE) returns two sequences whose common length is the smaller of the
  two input lengths, each a prefix of the sequence it comes from; with equal input lengths
  both come back unchanged.
\<close>

theorem truncate_keeps_prefixes:
  assumes "3 \<le> length xs" and "3 \<le> length ys"
  shows "\<exists>xs' ys'. process_mismatch xs ys (Strategy CUT) = Inr (xs', ys') \<and>
           length xs' = min (length xs) (length ys) \<and>
           length ys' = min (length xs) (length ys) \<and>
           prefix xs' xs \<and> prefix ys' ys \<and>
           (length xs = length ys \<longrightarrow> xs' = xs \<and> ys' = ys)"
  using assms by (auto simp: process_mismatch_def Let_def take_is_prefix)

theorem truncate_keeps_prefixes_witness:
  "process_mismatch [1, 2, 3, 4, 5 :: real] [1, 2, 3] (Strategy CUT) = Inr ([1, 2, 3], [1, 2, 3])"
proof -
  have "3 \<le> length [1, 2, 3, 4, 5 :: real]" and "3 \<le> length [1, 2, 3 :: real]" by simp_all
  from truncate_keeps_prefixes [OF this]
  obtain xs' ys' where r: "process_mismatch [1, 2, 3, 4, 5 :: real] [1, 2, 3] (Strategy CUT) = Inr (xs', ys')"
    and p: "prefix xs' [1, 2, 3, 4, 5]" "prefix ys' [1, 2, 3]"
    and l: "length xs' = min (length [1, 2, 3, 4, 5 :: real]) (length [1, 2, 3 :: real])"
           "length ys' = min (length [1, 2, 3, 4, 5 :: real]) (length [1, 2, 3 :: real])"
    by blast
  from p have "xs' = take (length xs') [1, 2, 3, 4, 5]" "ys' = take (length ys') [1, 2, 3]"
    by (auto simp: prefix_def)
  with l have "xs' = [1, 2, 3]" "ys' = [1, 2, 3]"
    by simp_all
  with r show ?thesis by simp
qed

text \<open>
  C5, as stated: for two sequences of at least 3 elements each and a strategy value outside
  the enumeration, \<open>get_lsm_description\<close> fails with the ValueError of the \<^verbatim>\<open>case _\<close> branch
  (the specification's PolicyError), also when the two lengths are equal. The code reads the
  strategy only inside \<^verbatim>\<open>if len(abscissa) != len(ordinates)\<close>: with the equal-length inputs
  \<open>[1, 2, 3]\<close> and \<open>[2, 4, 6]\<close> and a value that is no strategy it returns the fit.
\<close>

theorem unknown_strategy_equal_lengths_counterexample:
  "get_lsm_description (float_list [1, 2, 3]) (float_list [2, 4, 6]) NotAStrategy =
     Inr \<lparr> incline = 2, shift = 0, incline_error = 0, shift_error = 0 \<rparr>"
  by (rule fit_collinear)

text \<open>
  C5, amended: for two real sequences of at least 3 elements each and a strategy value
  outside the enumeration, \<open>get_lsm_description\<close> fails with that ValueError when the two
  lengths differ; when they are equal the strategy is not read, and the result is the one
  every other strategy value gives.
\<close>

theorem unknown_strategy_policy_error:
  assumes \<open>3 \<le> length xs\<close> and \<open>3 \<le> length ys\<close>
  shows \<open>(length xs \<noteq> length ys \<longrightarrow>
            get_lsm_description (float_list xs) (float_list ys) NotAStrategy =
              Inl (ValueError ''Unknown data in argument "mismatch_data"'')) \<and>
         (length xs = length ys \<longrightarrow>
            get_lsm_description (float_list xs) (float_list ys) NotAStrategy =
            get_lsm_description (float_list xs) (float_list ys) s)\<close>
  using assms
  by (simp add: get_lsm_description_float_list process_mismatch_def)

theorem unknown_strategy_policy_error_witness:
  \<open>get_lsm_description (float_list [1, 2, 3]) (float_list [1, 2, 3, 4]) NotAStrategy =
     Inl (ValueError ''Unknown data in argument "mismatch_data"'') \<and>
   get_lsm_description (float_list [1, 2, 3]) (float_list [2, 4, 6]) NotAStrategy =
   get_lsm_description (float_list [1, 2, 3]) (float_list [2, 4, 6]) (Strategy FALL)\<close>
proof -
  have a: "3 \<le> length [1, 2, 3 :: real]" and b: "3 \<le> length [1, 2, 3, 4 :: real]"
    and c: "3 \<le> length [2, 4, 6 :: real]"
    by simp_all
  from unknown_strategy_policy_error [OF a b] unknown_strategy_policy_error [OF a c]
  show ?thesis by simp
qed

text \<open>
  C6. When one of two real sequences has fewer than 3 elements, \<open>get_lsm_description\<close>
  fails, under every strategy value, with the ValueError of the length floor (the
  specification's LengthError); so it does for abscissa \<open>[1, 2]\<close> and ordinates \<open>[1, 2]\<close>.
\<close>

theorem short_input_length_error:
  assumes "length xs < 3 \<or> length ys < 3"
  shows "get_lsm_description (float_list xs) (float_list ys) s =
           Inl (ValueError ''Arguments lenghts must be more than 2'')"
  using assms by (auto simp: get_lsm_description_float_list process_mismatch_def)

theorem short_input_length_error_witness:
  "get_lsm_description (float_list [1, 2]) (float_list [1, 2]) (Strategy FALL) =
     Inl (ValueError ''Arguments lenghts must be more than 2'')"
proof -
  have "length [1, 2 :: real] < 3 \<or> length [1, 2 :: real] < 3" by simp
  from short_input_length_error [OF this] show ?thesis .
qed

subsection \<open>Claims about the lines\<close>

text \<open>
  C4. When \<open>get_lsm_description\<close>, called with its default strategy, succeeds on abscissa and
  ordinates, \<open>get_lsm_lines\<close> without a description succeeds too and returns exactly what it
  returns when handed the description of that call.
\<close>

theorem lines_default_description:
  assumes "get_lsm_description (float_list xs) (float_list ys) (Strategy FALL) = Inr d"
  shows "get_lsm_lines xs ys PyNone = get_lsm_lines xs ys (PyDescription d) \<and>
         (\<exists>L. get_lsm_lines xs ys PyNone = Inr L)"
  using assms by (simp add: get_lsm_lines_def)

theorem lines_default_description_witness:
  "get_lsm_lines [1, 2, 3] [2, 4, 6] PyNone =
   get_lsm_lines [1, 2, 3] [2, 4, 6]
     (PyDescription \<lparr> incline = 2, shift = 0, incline_error = 0, shift_error = 0 \<rparr>)"
proof -
  note fit = fit_collinear [of "Strategy FALL"]
  from lines_default_description [OF fit] show ?thesis by simp
qed

text \<open>
  C10. Handed a description, \<open>get_lsm_lines\<close> checks neither sequence: for any two lists it
  succeeds, its three lines are as long as abscissa and its \<open>ordinates\<close> field is the
  argument as passed. The five sequences of the result therefore need not share a length:
  with one abscissa value and two ordinates the predicted line has one entry and the
  \<open>ordinates\<close> field two.
\<close>

theorem lines_without_validation:
  "(\<exists>L. get_lsm_lines xs ys (PyDescription d) = Inr L \<and>
      length (line_predicted L) = length xs \<and>
      length (line_above L) = length xs \<and>
      length (line_under L) = length xs \<and>
      lines_abscissa L = xs \<and> lines_ordinates L = ys) \<and>
   (\<exists>L. get_lsm_lines [1] [1, 2] (PyDescription d) = Inr L \<and>
      length (line_predicted L) \<noteq> length (lines_ordinates L))"
  by (simp add: get_lsm_lines_def)

subsection \<open>Auxiliary facts about the report\<close>

lemma is_digit_digit_char: "is_digit (digit_char n)"
  unfolding is_digit_def digit_char_def by (rule nth_mem) simp

lemma digits_str_nat: "list_all is_digit (str_nat n)"
proof (induction n rule: str_nat.induct)
  case (1 n)
  show ?case
  proof (cases "n < 10")
    case True
    then show ?thesis by (subst str_nat.simps) (simp add: is_digit_digit_char)
  next
    case False
    with "1" show ?thesis by (subst str_nat.simps) (simp add: is_digit_digit_char)
  qed
qed

lemma str_nat_not_empty: "str_nat n \<noteq> []"
  by (subst str_nat.simps) simp

lemma str_nat_digit: "n < 10 \<Longrightarrow> str_nat n = [digit_char n]"
  by (subst str_nat.simps) simp

lemma frac_digits_3:
  "frac_digits 3 m = [digit_char (m div 10 div 10), digit_char (m div 10), digit_char m]"
  by (simp add: numeral_3_eq_3)

lemma point_not_digit: "\<not> is_digit CHR ''.''"
  by (simp add: is_digit_def)

lemma no_point_in_digits: "list_all is_digit s \<Longrightarrow> CHR ''.'' \<notin> set s"
  using point_not_digit by (auto simp: list_all_iff)

lemma three_decimals_shape:
  assumes "w \<noteq> []" and "CHR ''.'' \<notin> set w" and "is_digit a" and "is_digit b" and "is_digit c"
  shows "three_decimals (w @ CHR ''.'' # [a, b, c])"
  using assms by (cases w) (simp_all add: three_decimals_def nth_append)

lemma format_f_shape:
  "\<exists>q r. format_f 3 x =
     ((if x < 0 then ''-'' else []) @ str_nat q) @
     CHR ''.'' # [digit_char (r div 10 div 10), digit_char (r div 10), digit_char r]"
  unfolding format_f_def Let_def frac_digits_3 by auto

lemma three_decimals_signed:
  assumes "sg = ''-'' \<or> sg = []"
  shows "three_decimals
    ((sg @ str_nat q) @
     CHR ''.'' # [digit_char (r div 10 div 10), digit_char (r div 10), digit_char r])"
proof (rule three_decimals_shape)
  show "sg @ str_nat q \<noteq> []" by (simp add: str_nat_not_empty)
  show "CHR ''.'' \<notin> set (sg @ str_nat q)"
    using assms no_point_in_digits [OF digits_str_nat, of q] by auto
qed (rule is_digit_digit_char)+

lemma three_decimals_format_f: "three_decimals (format_f 3 x)"
proof -
  from format_f_shape [of x] obtain q r where
    f: "format_f 3 x = ((if x < 0 then ''-'' else []) @ str_nat q) @
      CHR ''.'' # [digit_char (r div 10 div 10), digit_char (r div 10), digit_char r]"
    by blast
  show ?thesis unfolding f by (rule three_decimals_signed) simp
qed

lemma three_decimals_neg_zero: "three_decimals (''-'' @ format_f 3 0)"
proof -
  from format_f_shape [of 0] obtain q r where
    f: "format_f 3 0 = str_nat q @
      CHR ''.'' # [digit_char (r div 10 div 10), digit_char (r div 10), digit_char r]"
    by auto
  have "three_decimals ((''-'' @ str_nat q) @
      CHR ''.'' # [digit_char (r div 10 div 10), digit_char (r div 10), digit_char r])"
    by (rule three_decimals_signed) simp
  then show ?thesis unfolding f by simp
qed

lemma three_decimals_format_float:
  "is_finite v \<Longrightarrow> three_decimals (format_float 3 v)"
  using three_decimals_format_f three_decimals_neg_zero by (cases v) simp_all

lemma format_float_not_finite:
  "\<not> is_finite v \<Longrightarrow>
   format_float 3 v = ''nan'' \<or> format_float 3 v = ''inf'' \<or> format_float 3 v = ''-inf''"
  by (cases v) simp_all

lemma no_decimals_not_finite: "\<not> is_finite v \<Longrightarrow> \<not> three_decimals (format_float 3 v)"
  by (cases v) (simp_all add: three_decimals_def)

lemma round_half_even_near:
  assumes "real n - 1 / 2 < y" and "y < real n + 1 / 2"
  shows "round_half_even y = n"
proof -
  have "\<lfloor>y\<rfloor> = int n \<or> \<lfloor>y\<rfloor> = int n - 1"
    using assms by linarith
  then show ?thesis
  proof
    assume f: "\<lfloor>y\<rfloor> = int n"
    then have "y - real n < 1 / 2" using assms by simp
    with f show ?thesis by (simp add: round_half_even_def Let_def)
  next
    assume f: "\<lfloor>y\<rfloor> = int n - 1"
    show ?thesis
    proof (cases n)
      case 0
      with f assms show ?thesis by (simp add: round_half_even_def Let_def)
    next
      case (Suc m)
      with f have fl: "nat \<lfloor>y\<rfloor> = m" by simp
      from f Suc have "y < real m + 1" by linarith
      moreover from assms(1) Suc have "1 / 2 < y - real m" by simp
      ultimately show ?thesis
        using Suc by (simp add: round_half_even_def Let_def fl)
    qed
  qed
qed

lemma format_example:
  assumes "\<bar>x - 1.23456\<bar> < 1 / 10 ^ 6"
  shows "format_f 3 x = ''1.235''"
proof -
  from assms have "x - 1.23456 < 1 / 10 ^ 6" and "- (1 / 10 ^ 6) < x - 1.23456"
    by (simp_all only: abs_less_iff minus_diff_eq neg_less_iff_less) linarith+
  then have pos: "0 < x" and lo: "real 1235 - 1 / 2 < x * 10 ^ 3"
    and hi: "x * 10 ^ 3 < real 1235 + 1 / 2"
    by simp_all
  from pos have ab: "\<bar>x\<bar> = x" by simp
  have r: "round_half_even (\<bar>x\<bar> * 10 ^ 3) = 1235"
    unfolding ab using lo hi by (rule round_half_even_near)
  show ?thesis
    unfolding format_f_def Let_def r frac_digits_3
    using pos by (simp add: str_nat_digit digit_char_def)
qed

lemma format_zero: "format_f 3 0 = ''0.000''"
proof -
  have r: "round_half_even (\<bar>0\<bar> * 10 ^ 3) = 0"
    by (simp add: round_half_even_def)
  show ?thesis
    unfolding format_f_def Let_def r frac_digits_3
    by (simp add: str_nat_digit digit_char_def)
qed

lemma report_lines_eq:
  "report_lines d =
     [replicate 40 CHR ''='' @ ''LSM computing result'' @ replicate 40 CHR ''='', [],
      ''[INFO]: incline: '' @ format_float 3 (incline d) @ '';'',
      ''[INFO]: shift: '' @ format_float 3 (shift d) @ '';'',
      ''[INFO]: incline error: '' @ format_float 3 (incline_error d) @ '';'',
      ''[INFO]: shift error: '' @ format_float 3 (shift_error d) @ '';'',
      [], replicate 100 CHR ''='']"
  by (simp add: report_lines_def center_def PRECISION_def replicate_add [symmetric])

lemma get_report_text:
  "get_report d p fs = Inr (t, fs') \<Longrightarrow> t = join [CHR 0x0A] (report_lines d)"
  by (auto simp: get_report_def Let_def split: option.splits if_splits)

lemma get_report_no_path:
  "get_report d None fs = Inr (join [CHR 0x0A] (report_lines d), fs)"
  by (simp add: get_report_def)

subsection \<open>Claims about the report\<close>

text \<open>
  C9, as stated: the text of \<open>get_report\<close> depends on the description alone, and in it
  incline, shift, incline error and shift error each appear with exactly three decimals,
  for every description. A description may hold NaN, which \<^verbatim>\<open>.3f\<close> prints as \<^verbatim>\<open>nan\<close>: the
  report of the description whose incline is NaN has the line \<^verbatim>\<open>[INFO]: incline: nan;\<close>,
  and \<open>nan\<close> is not a number printed with three decimals.
\<close>

theorem report_nan_counterexample:
  "get_report \<lparr> incline = NaN, shift = Finite 0, incline_error = Finite 0,
                shift_error = Finite 0 \<rparr>
     None \<lparr> contents = (\<lambda>p. None), writable = (\<lambda>p. True) \<rparr> =
   Inr (join [CHR 0x0A]
          [replicate 40 CHR ''='' @ ''LSM computing result'' @ replicate 40 CHR ''='', [],
           ''[INFO]: incline: nan;'',
           ''[INFO]: shift: 0.000;'',
           ''[INFO]: incline error: 0.000;'',
           ''[INFO]: shift error: 0.000;'',
           [], replicate 100 CHR ''=''],
        \<lparr> contents = (\<lambda>p. None), writable = (\<lambda>p. True) \<rparr>) \<and>
   \<not> three_decimals ''nan''"
proof -
  have "\<not> three_decimals ''nan''"
    by (simp add: three_decimals_def)
  then show ?thesis
    unfolding get_report_no_path report_lines_eq
    by (simp add: format_zero)
qed

text \<open>
  C9, amended: the text \<open>get_report\<close> returns depends on the description alone: two calls on
  one description that both return, whatever their paths and file systems, return the same
  characters. The text is the banner, an empty line, the four \<^verbatim>\<open>[INFO]\<close> lines, an empty
  line and the closing rule. Each of incline, shift, incline error and shift error that is
  a finite number is printed in it with exactly three decimals; one that is NaN or infinite
  is printed as \<open>nan\<close>, \<open>inf\<close> or \<open>-inf\<close>. For an incline of 1.23456 (or any value within a
  millionth of it, such as the nearest double) the text contains \<open>incline: 1.235;\<close>.
\<close>

theorem report_deterministic:
  assumes "get_report d p fs = Inr (t, fs')" and "get_report d p' fs2 = Inr (t', fs2')"
  shows "t' = t \<and>
         t = join [CHR 0x0A]
               [replicate 40 CHR ''='' @ ''LSM computing result'' @ replicate 40 CHR ''='', [],
                ''[INFO]: incline: '' @ format_float 3 (incline d) @ '';'',
                ''[INFO]: shift: '' @ format_float 3 (shift d) @ '';'',
                ''[INFO]: incline error: '' @ format_float 3 (incline_error d) @ '';'',
                ''[INFO]: shift error: '' @ format_float 3 (shift_error d) @ '';'',
                [], replicate 100 CHR ''=''] \<and>
         (\<forall>v \<in> {incline d, shift d, incline_error d, shift_error d}.
            (is_finite v \<longrightarrow> three_decimals (format_float 3 v)) \<and>
            (\<not> is_finite v \<longrightarrow>
               format_float 3 v = ''nan'' \<or> format_float 3 v = ''inf'' \<or>
               format_float 3 v = ''-inf'')) \<and>
         (\<forall>x. incline d = Finite x \<and> \<bar>x - 1.23456\<bar> < 1 / 10 ^ 6 \<longrightarrow>
            sublist ''incline: 1.235;'' t)"
proof -
  have t: "t = join [CHR 0x0A] (report_lines d)"
    using assms(1) by (rule get_report_text)
  have t': "t' = join [CHR 0x0A] (report_lines d)"
    using assms(2) by (rule get_report_text)
  have sub: "sublist ''incline: 1.235;'' t"
    if "incline d = Finite x" and "\<bar>x - 1.23456\<bar> < 1 / 10 ^ 6" for x
  proof -
    have "format_float 3 (incline d) = ''1.235''"
      using format_example [OF that(2)] that(1) by simp
    then have "t = (replicate 40 CHR ''='' @ ''LSM computing result'' @ replicate 40 CHR ''='' @
        [CHR 0x0A, CHR 0x0A] @ ''[INFO]: '') @ ''incline: 1.235;'' @
        (CHR 0x0A # join [CHR 0x0A]
          [''[INFO]: shift: '' @ format_float 3 (shift d) @ '';'',
           ''[INFO]: incline error: '' @ format_float 3 (incline_error d) @ '';'',
           ''[INFO]: shift error: '' @ format_float 3 (shift_error d) @ '';'',
           [], replicate 100 CHR ''=''])"
      unfolding t report_lines_eq by simp
    then show ?thesis unfolding sublist_def by blast
  qed
  have fields: "(is_finite v \<longrightarrow> three_decimals (format_float 3 v)) \<and>
      (\<not> is_finite v \<longrightarrow>
         format_float 3 v = ''nan'' \<or> format_float 3 v = ''inf'' \<or>
         format_float 3 v = ''-inf'')" for v
    using three_decimals_format_float [of v] format_float_not_finite [of v] by blast
  have whole: "t = join [CHR 0x0A]
       [replicate 40 CHR ''='' @ ''LSM computing result'' @ replicate 40 CHR ''='', [],
        ''[INFO]: incline: '' @ format_float 3 (incline d) @ '';'',
        ''[INFO]: shift: '' @ format_float 3 (shift d) @ '';'',
        ''[INFO]: incline error: '' @ format_float 3 (incline_error d) @ '';'',
        ''[INFO]: shift error: '' @ format_float 3 (shift_error d) @ '';'',
        [], replicate 100 CHR ''='']"
    unfolding t report_lines_eq ..
  from t t' have "t' = t" by simp
  with whole fields sub show ?thesis by blast
qed

theorem report_deterministic_witness:
  "get_report \<lparr> incline = Finite 1.23456, shift = NegZero, incline_error = PosInf,
                shift_error = Finite 0 \<rparr>
     (Some ''report.txt'') \<lparr> contents = (\<lambda>p. None), writable = (\<lambda>p. True) \<rparr> =
   Inr (join [CHR 0x0A]
          [replicate 40 CHR ''='' @ ''LSM computing result'' @ replicate 40 CHR ''='', [],
           ''[INFO]: incline: 1.235;'',
           ''[INFO]: shift: -0.000;'',
           ''[INFO]: incline error: inf;'',
           ''[INFO]: shift error: 0.000;'',
           [], replicate 100 CHR ''=''],
        \<lparr> contents = (\<lambda>p. None)(''report.txt'' \<mapsto>
            join [CHR 0x0A] (report_lines
              \<lparr> incline = Finite 1.23456, shift = NegZero, incline_error = PosInf,
                shift_error = Finite 0 \<rparr>)),
          writable = (\<lambda>p. True) \<rparr>)"
proof -
  let ?d = "\<lparr> incline = Finite 1.23456, shift = NegZero, incline_error = PosInf,
                shift_error = Finite 0 \<rparr>"
  let ?fs = "\<lparr> contents = (\<lambda>p. None), writable = (\<lambda>p. True) \<rparr>"
  let ?t = "join [CHR 0x0A] (report_lines ?d)"
  have g1: "get_report ?d None ?fs = Inr (?t, ?fs)"
    by (rule get_report_no_path)
  have g2: "get_report ?d (Some ''report.txt'') ?fs =
      Inr (?t, \<lparr> contents = (\<lambda>p. None)(''report.txt'' \<mapsto> ?t), writable = (\<lambda>p. True) \<rparr>)"
    by (simp add: get_report_def Let_def)
  have f1: "format_f 3 1.23456 = ''1.235''"
    by (rule format_example) simp
  from report_deterministic [OF g1 g2]
  have "?t = join [CHR 0x0A]
               [replicate 40 CHR ''='' @ ''LSM computing result'' @ replicate 40 CHR ''='', [],
                ''[INFO]: incline: '' @ format_float 3 (incline ?d) @ '';'',
                ''[INFO]: shift: '' @ format_float 3 (shift ?d) @ '';'',
                ''[INFO]: incline error: '' @ format_float 3 (incline_error ?d) @ '';'',
                ''[INFO]: shift error: '' @ format_float 3 (shift_error ?d) @ '';'',
                [], replicate 100 CHR ''='']"
    by (rule conjunct2 [THEN conjunct1])
  then have eq: "?t = join [CHR 0x0A]
          [replicate 40 CHR ''='' @ ''LSM computing result'' @ replicate 40 CHR ''='', [],
           ''[INFO]: incline: 1.235;'',
           ''[INFO]: shift: -0.000;'',
           ''[INFO]: incline error: inf;'',
           ''[INFO]: shift error: 0.000;'',
           [], replicate 100 CHR ''='']"
    by (simp only: LSMDescription.simps format_float.simps f1 format_zero append_Cons
        append_Nil)
  show ?thesis
    by (subst eq [symmetric]) (rule g2)
qed

end
